theory Spec2Isabelle
  imports Complex_Main
begin

section \<open>Errors\<close>

text \<open>
  Every exception the modelled code can raise is a value of this type; a function that can
  raise returns \<open>error + 'a\<close> with \<open>Inl\<close> carrying the exception.
  \<open>UnableToDivideVectorIntoPointsError\<close> and \<open>AnimationAlreadyFinishedError\<close> are the
  repository's own exceptions, \<open>NotFoundError\<close> is the renderer's failure for a resource
  type without a drawing routine, the others are built-in exceptions of Python.
\<close>

datatype error =
    NameError
  | AttributeError
  | TypeError
  | IndexError
  | ZeroDivisionError
  | UnableToDivideVectorIntoPointsError
  | AnimationAlreadyFinishedError
  | NotFoundError

definition and_then :: "error + 'a \<Rightarrow> ('a \<Rightarrow> error + 'b) \<Rightarrow> error + 'b" where
  "and_then r f = (case r of Inl e \<Rightarrow> Inl e | Inr x \<Rightarrow> f x)"

section \<open>geometry.py: Vector\<close>

text \<open>
  \<open>Vector\<close> is a frozen dataclass over a tuple of numbers. Coordinates are modelled as
  exact reals: Python's integers are exact, and its floats are idealised as reals (no
  rounding of the arithmetic itself).
\<close>

record Vector =
  coordinates :: "real list"

definition vec :: "real list \<Rightarrow> Vector" where
  "vec cs = \<lparr>coordinates = cs\<rparr>"

text \<open>\<open>length\<close>: \<open>sqrt(sum(coordinate**2 for coordinate in self.coordinates))\<close>.\<close>

definition length_v :: "Vector \<Rightarrow> real" where
  "length_v v = sqrt (sum_list (map (\<lambda>coordinate. coordinate ^ 2) (coordinates v)))"

text \<open>
  \<open>get_normalized_to_measurements\<close>: pads on the right with the default measurement point
  when the requested count exceeds the number of coordinates, and otherwise slices
  \<open>coordinates[:n]\<close>, with a negative \<open>n\<close> replaced by 0.
\<close>

definition get_normalized_to_measurements :: "Vector \<Rightarrow> int \<Rightarrow> real \<Rightarrow> Vector" where
  "get_normalized_to_measurements v number_of_measurements default_measurement_point =
     (let measurement_difference = number_of_measurements - int (length (coordinates v))
      in vec (if measurement_difference > 0
              then coordinates v @ replicate (nat measurement_difference) default_measurement_point
              else take (nat (if number_of_measurements \<ge> 0 then number_of_measurements else 0))
                     (coordinates v)))"

text \<open>
  \<open>__add__\<close>: both operands are normalized to the larger coordinate count (default
  measurement point 0) and Python's two-argument \<open>map\<close> sums them pairwise, stopping with
  the shorter of its two inputs.
\<close>

definition add :: "Vector \<Rightarrow> Vector \<Rightarrow> Vector" where
  "add self other =
     (let maximum_number_of_measurements =
            max (int (length (coordinates self))) (int (length (coordinates other)))
      in vec (map (\<lambda>(first, second). first + second)
               (zip (coordinates (get_normalized_to_measurements self maximum_number_of_measurements 0))
                    (coordinates (get_normalized_to_measurements other maximum_number_of_measurements 0)))))"

text \<open>
  \<open>get_reflected_by_coordinates\<close>: the optional index collection is \<open>None\<close> by default and
  then stands for \<open>range(len(coordinates))\<close>; a coordinate is multiplied by -1 when its
  index is in the collection and by 1 otherwise.
\<close>

definition get_reflected_by_coordinates :: "Vector \<Rightarrow> int list option \<Rightarrow> Vector" where
  "get_reflected_by_coordinates v coordinate_indexes =
     (let indexes = (case coordinate_indexes of
                       None \<Rightarrow> map int [0..<length (coordinates v)]
                     | Some given \<Rightarrow> given)
      in vec (map (\<lambda>(coordinate_index, coordinate).
                     coordinate * (if int coordinate_index \<in> set indexes then - 1 else 1))
               (zip [0..<length (coordinates v)] (coordinates v))))"

text \<open>\<open>__sub__\<close>: \<open>self + other.get_reflected_by_coordinates()\<close>.\<close>

definition sub :: "Vector \<Rightarrow> Vector \<Rightarrow> Vector" where
  "sub self other = add self (get_reflected_by_coordinates other None)"

text \<open>\<open>get_rounded_by\<close>: the rounder applied to every coordinate.\<close>

definition get_rounded_by :: "Vector \<Rightarrow> (real \<Rightarrow> real) \<Rightarrow> Vector" where
  "get_rounded_by v rounder = vec (map rounder (coordinates v))"

section \<open>geometry.py: VirtualVector\<close>

record VirtualVector =
  start_point :: Vector
  end_point :: Vector

text \<open>The property \<open>value\<close>: \<open>self.end_point - self.start_point\<close>.\<close>

definition value_of :: "VirtualVector \<Rightarrow> Vector" where
  "value_of v = sub (end_point v) (start_point v)"

definition VirtualVector_get_rounded_by :: "VirtualVector \<Rightarrow> (real \<Rightarrow> real) \<Rightarrow> VirtualVector" where
  "VirtualVector_get_rounded_by v rounder =
     \<lparr>start_point = get_rounded_by (start_point v) rounder,
      end_point = get_rounded_by (end_point v) rounder\<rparr>"

section \<open>tools: Report and Divider\<close>

text \<open>
  Modelled from the spec: the module \<open>tools\<close> (\<open>Report\<close>, \<open>Divider\<close>, the number rounders)
  is not among the source files. A \<open>Report\<close> is a success/error result value and
  \<open>create_error_report\<close> builds the failure that carries the originating error. The
  rounders are taken as parameters of type \<open>real \<Rightarrow> real\<close>.
\<close>

datatype Report = SuccessReport | ErrorReport error

definition create_error_report :: "error \<Rightarrow> Report" where
  "create_error_report e = ErrorReport e"

text \<open>
  Modelled from the spec: the base feasibility check of \<open>Divider\<close>, which the subclass
  calls through \<open>super()\<close>; the spec gives it no rejection of its own.
\<close>

definition Divider_is_possible_to_divide :: "'a \<Rightarrow> error + Report" where
  "Divider_is_possible_to_divide data = Inr SuccessReport"

section \<open>geometry.py: VectorDivider\<close>

record VectorDivider =
  distance_between_points :: real
  rounder :: "real \<Rightarrow> real"

text \<open>
  The names bound at module level in \<open>geometry.py\<close> (its imports and its four classes),
  and the resolution of a name read inside a function: a name bound neither locally nor
  in the module raises \<open>NameError\<close> (Python's builtins hold no name \<open>vector\<close>).
\<close>

definition geometry_module_names :: "string list" where
  "geometry_module_names =
     [''dataclass'', ''Iterable'', ''Callable'', ''sqrt'', ''modf'', ''overload'',
      ''NumberRounder'', ''ShiftNumberRounder'', ''AccurateNumberRounder'', ''Report'',
      ''Divider'', ''UnableToDivideVectorIntoPointsError'',
      ''Vector'', ''VirtualVector'', ''VectorDivider'', ''Line'']"

definition load_name :: "string list \<Rightarrow> string list \<Rightarrow> string \<Rightarrow> error + unit" where
  "load_name local_names module_names name =
     (if name \<in> set local_names then Inr ()
      else if name \<in> set module_names then Inr ()
      else Inl NameError)"

text \<open>
  \<open>is_possible_to_divide(self, data)\<close>: a conditional expression, so the test
  \<open>data.value.length == 0\<close> runs first. In the zero-length branch the error message is the
  f-string \<open>f"Can't divide vector {vector} into points with length 0"\<close>, which reads the
  name \<open>vector\<close>; the parameters of the method are \<open>self\<close> and \<open>data\<close>.
\<close>

definition is_possible_to_divide :: "VectorDivider \<Rightarrow> VirtualVector \<Rightarrow> error + Report" where
  "is_possible_to_divide self data =
     (if length_v (value_of data) = 0
      then and_then (load_name [''self'', ''data''] geometry_module_names ''vector'')
             (\<lambda>_. Inr (create_error_report UnableToDivideVectorIntoPointsError))
      else Divider_is_possible_to_divide data)"

text \<open>
  \<open>__create_points\<close>: the list starts as \<open>[start_point]\<close>; for every index in
  \<open>range(1, int(number_of_points_to_create))\<close> the point
  \<open>created_points[index - 1] + vector_to_next_point\<close> is appended; at the end every point
  is rounded. \<open>int\<close> truncates towards zero; for a count below 1 the range is empty either
  way, so the floor gives the same range.
\<close>

fun append_created_points :: "Vector list \<Rightarrow> nat list \<Rightarrow> Vector \<Rightarrow> Vector list" where
  "append_created_points created_points [] vector_to_next_point = created_points"
| "append_created_points created_points (created_point_index # indexes) vector_to_next_point =
     append_created_points
       (created_points @ [add (created_points ! (created_point_index - 1)) vector_to_next_point])
       indexes vector_to_next_point"

definition create_points :: "VectorDivider \<Rightarrow> Vector \<Rightarrow> real \<Rightarrow> Vector \<Rightarrow> Vector list" where
  "create_points self start number_of_points_to_create vector_to_next_point =
     map (\<lambda>point. get_rounded_by point (rounder self))
       (append_created_points [start] [1..<nat \<lfloor>number_of_points_to_create\<rfloor>]
          vector_to_next_point)"

text \<open>
  \<open>_divide\<close>. Each of the three divisions raises \<open>ZeroDivisionError\<close> on a zero divisor;
  the division by \<open>factor\<close> sits in a generator over the coordinates and so only runs
  when there is a coordinate. \<open>modf(n)[0]\<close> is the fractional part of \<open>n\<close>, and it is truthy
  when it is not zero.
\<close>

definition VectorDivider_divide :: "VectorDivider \<Rightarrow> VirtualVector \<Rightarrow> error + Vector list" where
  "VectorDivider_divide self vector =
     (if distance_between_points self = 0 then Inl ZeroDivisionError
      else
        let factor = rounder self (length_v (value_of vector) / distance_between_points self)
        in if factor = 0 \<and> coordinates (value_of vector) \<noteq> [] then Inl ZeroDivisionError
           else
             let vector_to_next_point =
                   vec (map (\<lambda>coordinate. coordinate / factor) (coordinates (value_of vector)))
             in if length_v vector_to_next_point = 0 then Inl ZeroDivisionError
                else
                  let number_of_points_to_create =
                        length_v (value_of vector) / length_v vector_to_next_point + 1
                  in if number_of_points_to_create \<le> 0
                     then Inl UnableToDivideVectorIntoPointsError
                     else if frac number_of_points_to_create \<noteq> 0
                     then Inl UnableToDivideVectorIntoPointsError
                     else Inr (create_points self (start_point vector)
                                 number_of_points_to_create vector_to_next_point))"

text \<open>
  Modelled from the spec: \<open>Divider.__call__\<close> (module \<open>tools\<close>, not among the source
  files). The division is performed only after a successful report; an error report
  raises the error it carries.
\<close>

definition Divider_call :: "VectorDivider \<Rightarrow> VirtualVector \<Rightarrow> error + Vector list" where
  "Divider_call self data =
     and_then (is_possible_to_divide self data)
       (\<lambda>report. case report of
                    ErrorReport e \<Rightarrow> Inl e
                  | SuccessReport \<Rightarrow> VectorDivider_divide self data)"

section \<open>geometry.py: Line\<close>

text \<open>
  A \<open>Line\<close> holds the divider made by the class-level factory, that divider's rounder,
  the two endpoints and the cached tuple of points. The factory is a class attribute
  (by default \<open>VectorDivider(1, ShiftNumberRounder(AccurateNumberRounder(), 2))\<close>); the
  divider it returns is a parameter of the constructor here.
\<close>

record Line =
  Line_vector_divider :: VectorDivider
  Line_rounder :: "real \<Rightarrow> real"
  first_point :: Vector
  second_point :: Vector
  all_available_points :: "Vector list"

definition default_vector_divider :: "(real \<Rightarrow> real) \<Rightarrow> VectorDivider" where
  "default_vector_divider shift_rounder =
     \<lparr>distance_between_points = 1, rounder = shift_rounder\<rparr>"

text \<open>\<open>_update_all_available_points\<close>: the divider called on the current endpoints.\<close>

definition update_all_available_points :: "Line \<Rightarrow> error + Line" where
  "update_all_available_points self =
     and_then
       (Divider_call (Line_vector_divider self)
          \<lparr>start_point = first_point self, end_point = second_point self\<rparr>)
       (\<lambda>points. Inr (self\<lparr>all_available_points := points\<rparr>))"

text \<open>
  \<open>__init__\<close>: the cache attribute does not exist until the first update assigns it; the
  empty list stands for it in between, and no constructed line carries it, since the
  constructor either assigns the cache or raises.
\<close>

definition Line_init :: "VectorDivider \<Rightarrow> Vector \<Rightarrow> Vector \<Rightarrow> error + Line" where
  "Line_init made_divider first second =
     update_all_available_points
       \<lparr>Line_vector_divider = made_divider, Line_rounder = rounder made_divider,
        first_point = first, second_point = second, all_available_points = []\<rparr>"

text \<open>
  The two setters: \<open>self._update_all_available_points()\<close> is the first statement and the
  assignment of the new point the second.
\<close>

definition set_first_point :: "Line \<Rightarrow> Vector \<Rightarrow> error + Line" where
  "set_first_point self new_point =
     and_then (update_all_available_points self)
       (\<lambda>updated. Inr (updated\<lparr>first_point := new_point\<rparr>))"

definition set_second_point :: "Line \<Rightarrow> Vector \<Rightarrow> error + Line" where
  "set_second_point self new_point =
     and_then (update_all_available_points self)
       (\<lambda>updated. Inr (updated\<lparr>second_point := new_point\<rparr>))"

definition is_point_inside :: "Line \<Rightarrow> Vector \<Rightarrow> bool" where
  "is_point_inside self point =
     (get_rounded_by point (Line_rounder self) \<in> set (all_available_points self))"

section \<open>core and renders: what the avatars use\<close>

text \<open>
  Modelled from the spec: the modules \<open>simengine.core\<close> and \<open>simengine.renders\<close> are not
  among the source files. A \<open>PositionalUnit\<close> has a position; a \<open>ResourcePack\<close> pairs a
  drawable resource with a render point, both assignable. The resource itself is opaque
  (\<open>any\<close> in the source), a type parameter here.
\<close>

record PositionalUnit =
  position :: Vector

record 'r ResourcePack =
  resource :: 'r
  point :: Vector

section \<open>avatars.py: objects and attributes\<close>

text \<open>
  \<open>Sprite\<close> is a dataclass of a resource and \<open>max_stay_ticks\<close>; \<open>__post_init__\<close> sets
  \<open>real_stay_ticks\<close> to \<open>max_stay_ticks\<close>.
\<close>

record 'r Sprite =
  Sprite_resource :: 'r
  max_stay_ticks :: int
  real_stay_ticks :: int

definition Sprite_init :: "'r \<Rightarrow> int \<Rightarrow> 'r Sprite" where
  "Sprite_init sprite_resource ticks =
     \<lparr>Sprite_resource = sprite_resource, max_stay_ticks = ticks, real_stay_ticks = ticks\<rparr>"

text \<open>
  An avatar object is its attribute dictionary, from attribute names to values. A unit
  is held by reference: the avatar stores the unit's address, and the units themselves
  live in a store that the rest of the program changes between two updates.
  Attribute lookup goes to the instance dictionary first and to the data attributes of
  the class next, and raises \<open>AttributeError\<close> when neither has the name. A bare
  annotation in a class body (\<open>_sprites: tuple[Sprite, ]\<close>,
  \<open>_main_resource_pack: ResourcePack\<close>) defines no attribute.
\<close>

datatype 'r pyval =
    IntV int
  | UnitRef nat
  | PackV "'r ResourcePack"
  | SpritesV "'r Sprite list"

type_synonym 'r attributes = "string \<Rightarrow> 'r pyval option"

type_synonym units = "nat \<Rightarrow> PositionalUnit"

definition getattr :: "'r attributes \<Rightarrow> 'r attributes \<Rightarrow> string \<Rightarrow> error + 'r pyval" where
  "getattr class_attributes self name =
     (case self name of
        Some v \<Rightarrow> Inr v
      | None \<Rightarrow> (case class_attributes name of
                   Some v \<Rightarrow> Inr v
                 | None \<Rightarrow> Inl AttributeError))"

text \<open>
  Inside a class body a name with two leading underscores (and no two trailing ones) is
  rewritten to \<open>_ClassName__name\<close>.
\<close>

definition mangle :: "string \<Rightarrow> string \<Rightarrow> string" where
  "mangle class_name private_name = ''_'' @ class_name @ private_name"

text \<open>
  Reading an attribute at the type the code uses it at. A value of another kind fails
  where the code would use it (\<open>TypeError\<close> stands for that failure); no constructor of
  the source stores such a value.
\<close>

definition get_int :: "'r attributes \<Rightarrow> 'r attributes \<Rightarrow> string \<Rightarrow> error + int" where
  "get_int class_attributes self name =
     and_then (getattr class_attributes self name)
       (\<lambda>v. case v of IntV i \<Rightarrow> Inr i | _ \<Rightarrow> Inl TypeError)"

definition get_unit_ref :: "'r attributes \<Rightarrow> 'r attributes \<Rightarrow> string \<Rightarrow> error + nat" where
  "get_unit_ref class_attributes self name =
     and_then (getattr class_attributes self name)
       (\<lambda>v. case v of UnitRef a \<Rightarrow> Inr a | _ \<Rightarrow> Inl TypeError)"

definition get_pack :: "'r attributes \<Rightarrow> 'r attributes \<Rightarrow> string \<Rightarrow> error + 'r ResourcePack" where
  "get_pack class_attributes self name =
     and_then (getattr class_attributes self name)
       (\<lambda>v. case v of PackV p \<Rightarrow> Inr p | _ \<Rightarrow> Inl TypeError)"

definition get_sprites :: "'r attributes \<Rightarrow> 'r attributes \<Rightarrow> string \<Rightarrow> error + 'r Sprite list" where
  "get_sprites class_attributes self name =
     and_then (getattr class_attributes self name)
       (\<lambda>v. case v of SpritesV sprites \<Rightarrow> Inr sprites | _ \<Rightarrow> Inl TypeError)"

text \<open>
  Indexing a tuple: a negative index counts from the end, an index outside the tuple
  raises \<open>IndexError\<close>.
\<close>

definition normalize_index :: "nat \<Rightarrow> int \<Rightarrow> error + nat" where
  "normalize_index n i =
     (let j = (if i < 0 then int n + i else i)
      in if 0 \<le> j \<and> j < int n then Inr (nat j) else Inl IndexError)"

definition index_tuple :: "'a list \<Rightarrow> int \<Rightarrow> error + 'a" where
  "index_tuple xs i = and_then (normalize_index (length xs) i) (\<lambda>j. Inr (xs ! j))"

section \<open>avatars.py: Avatar, SingleResourcePackAvatar, ResourceAvatar, PrimitiveAvatar\<close>

text \<open>\<open>Avatar.__init__\<close> stores the unit; the property \<open>unit\<close> reads it back.\<close>

definition Avatar_init :: "nat \<Rightarrow> 'r attributes" where
  "Avatar_init unit_ref = Map.empty(''_unit'' \<mapsto> UnitRef unit_ref)"

definition unit_position :: "units \<Rightarrow> 'r attributes \<Rightarrow> 'r attributes \<Rightarrow> error + Vector" where
  "unit_position world class_attributes self =
     and_then (get_unit_ref class_attributes self ''_unit'')
       (\<lambda>unit_ref. Inr (position (world unit_ref)))"

text \<open>
  \<open>SingleResourcePackAvatar.update\<close>:
  \<open>self._main_resource_pack.point = self.unit.position\<close>. The right-hand side is evaluated
  first, then the pack is read and its point assigned.
\<close>

definition SingleResourcePackAvatar_update ::
  "units \<Rightarrow> 'r attributes \<Rightarrow> 'r attributes \<Rightarrow> error + 'r attributes" where
  "SingleResourcePackAvatar_update world class_attributes self =
     and_then (unit_position world class_attributes self)
       (\<lambda>unit_position_now.
          and_then (get_pack class_attributes self ''_main_resource_pack'')
            (\<lambda>pack. Inr (self(''_main_resource_pack'' \<mapsto>
                              PackV (pack\<lparr>point := unit_position_now\<rparr>)))))"

definition render_resource_packs ::
  "'r attributes \<Rightarrow> 'r attributes \<Rightarrow> error + 'r ResourcePack list" where
  "render_resource_packs class_attributes self =
     and_then (get_pack class_attributes self ''_main_resource_pack'') (\<lambda>pack. Inr [pack])"

text \<open>
  \<open>ResourceAvatar.__init__\<close>: after \<open>Avatar.__init__\<close> the main pack is
  \<open>ResourcePack(self._resource_factory(self), self.unit.position)\<close>. The resource factory
  is supplied by the subclass and is a parameter here; \<open>PrimitiveAvatar\<close> supplies the
  constant factory of the resource it was given. The data attributes of these classes
  (\<open>_repr_fields\<close>, the factories) are not read by the code modelled here, so their
  class dictionary is empty.
\<close>

definition ResourceAvatar_class_attributes :: "'r attributes" where
  "ResourceAvatar_class_attributes = Map.empty"

definition ResourceAvatar_init ::
  "units \<Rightarrow> ('r attributes \<Rightarrow> 'r) \<Rightarrow> nat \<Rightarrow> error + 'r attributes" where
  "ResourceAvatar_init world resource_factory unit_ref =
     (let self = Avatar_init unit_ref
      in and_then (unit_position world ResourceAvatar_class_attributes self)
           (\<lambda>unit_position_now.
              Inr (self(''_main_resource_pack'' \<mapsto>
                     PackV \<lparr>resource = resource_factory self, point = unit_position_now\<rparr>))))"

definition PrimitiveAvatar_init :: "units \<Rightarrow> nat \<Rightarrow> 'r \<Rightarrow> error + 'r attributes" where
  "PrimitiveAvatar_init world unit_ref given_resource =
     ResourceAvatar_init world (\<lambda>_. given_resource) unit_ref"

section \<open>interfaces.py and avatars.py: abstract classes\<close>

text \<open>
  A class body is the list of the names it binds, each with \<open>True\<close> when the name is
  bound to an abstract method (decorated with \<open>abstractmethod\<close>) and \<open>False\<close> otherwise.
  \<open>interfaces.py\<close> declares \<open>update\<close> abstract in \<open>IUpdatable\<close> and the property
  \<open>render_resource\<close> abstract in \<open>IAvatar\<close>; one more decorator in the file has no
  function left under it and binds no name. A bare annotation binds no name.
\<close>

type_synonym class_body = "(string \<times> bool) list"

definition IUpdatable_body :: class_body where
  "IUpdatable_body = [(''update'', True)]"

definition IAvatar_body :: class_body where
  "IAvatar_body = [(''render_resource'', True)]"

definition Avatar_body :: class_body where
  "Avatar_body = [(''__init__'', False), (''unit'', False)]"

definition SingleResourcePackAvatar_body :: class_body where
  "SingleResourcePackAvatar_body = [(''render_resource_packs'', False), (''update'', False)]"

definition ResourceAvatar_body :: class_body where
  "ResourceAvatar_body =
     [(''_repr_fields'', False), (''_resource_pack_factory'', False), (''__init__'', False),
      (''render_resource'', False)]"

definition PrimitiveAvatar_body :: class_body where
  "PrimitiveAvatar_body = [(''__init__'', False), (''render_resource'', False)]"

definition Animation_body :: class_body where
  "Animation_body =
     [(''_current_sprite_index'', False), (''__init__'', False), (''update'', False),
      (''is_finished'', False), (''_active_sprite'', False),
      (''_update_main_resource_pack'', False), (''_handle_finish'', False)]"

definition CustomAnimation_body :: class_body where
  "CustomAnimation_body = [(''__init__'', False)]"

definition EndlessAnimation_body :: class_body where
  "EndlessAnimation_body = [(''_handle_finish'', False)]"

definition CustomEndlessAnimation_body :: class_body where
  "CustomEndlessAnimation_body = []"

text \<open>
  The method resolution order of a class, as the list of the class bodies in that order
  (\<open>ABC\<close>, \<open>object\<close> and the mixin of \<open>beautiful_repr\<close> bind no abstract name and are left
  out). \<open>CustomEndlessAnimation(EndlessAnimation, CustomAnimation)\<close> linearises to
  itself, \<open>EndlessAnimation\<close>, \<open>CustomAnimation\<close>, \<open>Animation\<close> and on.
\<close>

definition PrimitiveAvatar_mro :: "class_body list" where
  "PrimitiveAvatar_mro =
     [PrimitiveAvatar_body, ResourceAvatar_body, SingleResourcePackAvatar_body, Avatar_body,
      IAvatar_body, IUpdatable_body]"

definition CustomAnimation_mro :: "class_body list" where
  "CustomAnimation_mro =
     [CustomAnimation_body, Animation_body, SingleResourcePackAvatar_body, Avatar_body,
      IAvatar_body, IUpdatable_body]"

definition CustomEndlessAnimation_mro :: "class_body list" where
  "CustomEndlessAnimation_mro =
     [CustomEndlessAnimation_body, EndlessAnimation_body, CustomAnimation_body, Animation_body,
      SingleResourcePackAvatar_body, Avatar_body, IAvatar_body, IUpdatable_body]"

text \<open>
  A name is looked up in the first class body of the order that binds it. The abstract
  methods of a class are the names whose lookup ends at an abstract binding. Calling a
  class creates the object first, which raises \<open>TypeError\<close> when the class has an abstract
  method left, and runs \<open>__init__\<close> only after that.
\<close>

fun class_lookup :: "class_body list \<Rightarrow> string \<Rightarrow> bool option" where
  "class_lookup [] name = None"
| "class_lookup (body # bases) name =
     (case map_of body name of
        Some is_abstract \<Rightarrow> Some is_abstract
      | None \<Rightarrow> class_lookup bases name)"

definition abstractmethods :: "class_body list \<Rightarrow> string list" where
  "abstractmethods mro =
     filter (\<lambda>name. class_lookup mro name = Some True) (remdups (map fst (concat mro)))"

definition instantiate :: "class_body list \<Rightarrow> error + 'a \<Rightarrow> error + 'a" where
  "instantiate mro run_init = (if abstractmethods mro = [] then run_init else Inl TypeError)"

text \<open>
  The call \<open>PrimitiveAvatar(unit, resource)\<close>: the creation of the object with its check
  for abstract methods, then \<open>__init__\<close>.
\<close>

definition PrimitiveAvatar_construct :: "units \<Rightarrow> nat \<Rightarrow> 'r \<Rightarrow> error + 'r attributes" where
  "PrimitiveAvatar_construct world unit_ref given_resource =
     instantiate PrimitiveAvatar_mro (PrimitiveAvatar_init world unit_ref given_resource)"

section \<open>avatars.py: Animation and its subclasses\<close>

text \<open>
  The class body of \<open>Animation\<close> assigns one data attribute,
  \<open>_current_sprite_index: int = 0\<close>; \<open>CustomAnimation\<close>, \<open>EndlessAnimation\<close> and
  \<open>CustomEndlessAnimation\<close> add none. The methods below are inherited by every subclass,
  so each takes the data attributes of the class of the object it runs on.
\<close>

definition Animation_class_attributes :: "'r attributes" where
  "Animation_class_attributes = Map.empty(''_current_sprite_index'' \<mapsto> IntV 0)"

text \<open>The property \<open>_active_sprite\<close>: \<open>self._sprites[self._current_sprite_index]\<close>.\<close>

definition active_sprite :: "'r attributes \<Rightarrow> 'r attributes \<Rightarrow> error + 'r Sprite" where
  "active_sprite class_attributes self =
     and_then (get_sprites class_attributes self ''_sprites'')
       (\<lambda>sprites.
          and_then (get_int class_attributes self ''_current_sprite_index'')
            (\<lambda>current_sprite_index. index_tuple sprites current_sprite_index))"

text \<open>
  \<open>_update_main_resource_pack\<close>: the new pack is
  \<open>ResourcePack(self._sprites[self.__current_sprite_index].resource, self.unit.position)\<close>.
  The index is written with two leading underscores inside the body of \<open>Animation\<close>, so
  the attribute read is the mangled one.
\<close>

definition update_main_resource_pack ::
  "'r attributes \<Rightarrow> units \<Rightarrow> 'r attributes \<Rightarrow> error + 'r attributes" where
  "update_main_resource_pack class_attributes world self =
     and_then (get_sprites class_attributes self ''_sprites'')
       (\<lambda>sprites.
          and_then (get_int class_attributes self
                      (mangle ''Animation'' ''__current_sprite_index''))
            (\<lambda>sprite_index.
               and_then (index_tuple sprites sprite_index)
                 (\<lambda>sprite.
                    and_then (unit_position world class_attributes self)
                      (\<lambda>unit_position_now.
                         Inr (self(''_main_resource_pack'' \<mapsto>
                                PackV \<lparr>resource = Sprite_resource sprite,
                                       point = unit_position_now\<rparr>))))))"

text \<open>
  The method \<open>Animation.__init__\<close>: \<open>Avatar.__init__\<close>, then
  \<open>_update_main_resource_pack\<close>. This is the method alone; it runs only on an object
  that \<open>instantiate\<close> has let through.
\<close>

definition Animation_init_method :: "'r attributes \<Rightarrow> units \<Rightarrow> nat \<Rightarrow> error + 'r attributes" where
  "Animation_init_method class_attributes world unit_ref =
     update_main_resource_pack class_attributes world (Avatar_init unit_ref)"

text \<open>
  The method \<open>CustomAnimation.__init__\<close>: \<open>super().__init__(unit)\<close> first, the assignment
  \<open>self._sprites = tuple(sprites)\<close> second. It is also the \<open>__init__\<close> that
  \<open>CustomEndlessAnimation\<close> and any further subclass without one of its own inherit.
\<close>

definition CustomAnimation_init_method ::
  "'r attributes \<Rightarrow> units \<Rightarrow> nat \<Rightarrow> 'r Sprite list \<Rightarrow> error + 'r attributes" where
  "CustomAnimation_init_method class_attributes world unit_ref sprites =
     and_then (Animation_init_method class_attributes world unit_ref)
       (\<lambda>self. Inr (self(''_sprites'' \<mapsto> SpritesV sprites)))"

text \<open>
  The calls \<open>CustomAnimation(unit, sprites)\<close> and \<open>CustomEndlessAnimation(unit, sprites)\<close>:
  the creation of the object with its check for abstract methods, then \<open>__init__\<close>.
\<close>

definition CustomAnimation_construct ::
  "units \<Rightarrow> nat \<Rightarrow> 'r Sprite list \<Rightarrow> error + 'r attributes" where
  "CustomAnimation_construct world unit_ref sprites =
     instantiate CustomAnimation_mro
       (CustomAnimation_init_method Animation_class_attributes world unit_ref sprites)"

definition CustomEndlessAnimation_construct ::
  "units \<Rightarrow> nat \<Rightarrow> 'r Sprite list \<Rightarrow> error + 'r attributes" where
  "CustomEndlessAnimation_construct world unit_ref sprites =
     instantiate CustomEndlessAnimation_mro
       (CustomAnimation_init_method Animation_class_attributes world unit_ref sprites)"

text \<open>
  A subclass of \<open>CustomAnimation\<close> with its own class body and its own data attributes on
  top of the inherited ones, and no \<open>__init__\<close> of its own: the call of the subclass.
\<close>

definition CustomAnimation_subclass_construct ::
  "class_body \<Rightarrow> 'r attributes \<Rightarrow> units \<Rightarrow> nat \<Rightarrow> 'r Sprite list \<Rightarrow> error + 'r attributes" where
  "CustomAnimation_subclass_construct subclass_body subclass_attributes world unit_ref sprites =
     instantiate (subclass_body # CustomAnimation_mro)
       (CustomAnimation_init_method (Animation_class_attributes ++ subclass_attributes)
          world unit_ref sprites)"

text \<open>
  \<open>is_finished\<close>: \<open>self._current_sprite_index >= len(self._sprites) - 1 and
  self._active_sprite.real_stay_ticks <= 0\<close>; the right operand is evaluated only when
  the left one holds.
\<close>

definition is_finished :: "'r attributes \<Rightarrow> 'r attributes \<Rightarrow> error + bool" where
  "is_finished class_attributes self =
     and_then (get_int class_attributes self ''_current_sprite_index'')
       (\<lambda>current_sprite_index.
          and_then (get_sprites class_attributes self ''_sprites'')
            (\<lambda>sprites.
               if current_sprite_index \<ge> int (length sprites) - 1
               then and_then (active_sprite class_attributes self)
                      (\<lambda>sprite. Inr (real_stay_ticks sprite \<le> 0))
               else Inr False))"


definition EndlessAnimation_handle_finish ::
  "'r attributes \<Rightarrow> 'r attributes \<Rightarrow> error + 'r attributes" where
  "EndlessAnimation_handle_finish class_attributes self =
     (let reset = self(''_current_sprite_index'' \<mapsto> IntV 0)
      in and_then (get_sprites class_attributes reset ''_sprites'')
           (\<lambda>sprites.
              Inr (reset(''_sprites'' \<mapsto>
                     SpritesV (map (\<lambda>sprite. sprite\<lparr>real_stay_ticks := max_stay_ticks sprite\<rparr>)
                                sprites)))))"

text \<open>
  \<open>self._active_sprite.real_stay_ticks -= 1\<close>: the sprite object at the current index is
  changed in place; the tuple holds it, so the change is written into the tuple.
\<close>

definition decrement_active_sprite :: "'r attributes \<Rightarrow> 'r attributes \<Rightarrow> error + 'r attributes" where
  "decrement_active_sprite class_attributes self =
     and_then (get_sprites class_attributes self ''_sprites'')
       (\<lambda>sprites.
          and_then (get_int class_attributes self ''_current_sprite_index'')
            (\<lambda>current_sprite_index.
               and_then (normalize_index (length sprites) current_sprite_index)
                 (\<lambda>j. Inr (self(''_sprites'' \<mapsto>
                              SpritesV (sprites[j := (sprites ! j)
                                \<lparr>real_stay_ticks := real_stay_ticks (sprites ! j) - 1\<rparr>]))))))"

text \<open>
  \<open>Animation.update\<close>, with the finish handler of the concrete class as a parameter:
  the update of \<open>SingleResourcePackAvatar\<close>, the finish handler when the animation is
  finished, the refresh of the main pack, the decrement, and the advance of the index
  when the remaining ticks are at or below 0.
\<close>

definition Animation_update ::
  "('r attributes \<Rightarrow> 'r attributes \<Rightarrow> error + 'r attributes) \<Rightarrow>
   'r attributes \<Rightarrow> units \<Rightarrow> 'r attributes \<Rightarrow> error + 'r attributes" where
  "Animation_update handle_finish class_attributes world self =
     and_then (SingleResourcePackAvatar_update world class_attributes self)
       (\<lambda>synchronized.
          and_then (is_finished class_attributes synchronized)
            (\<lambda>finished.
               and_then (if finished then handle_finish class_attributes synchronized
                         else Inr synchronized)
                 (\<lambda>handled.
                    and_then (update_main_resource_pack class_attributes world handled)
                      (\<lambda>refreshed.
                         and_then (decrement_active_sprite class_attributes refreshed)
                           (\<lambda>decremented.
                              and_then (active_sprite class_attributes decremented)
                                (\<lambda>sprite.
                                   if real_stay_ticks sprite \<le> 0
                                   then and_then
                                          (get_int class_attributes decremented
                                             ''_current_sprite_index'')
                                          (\<lambda>current_sprite_index.
                                             Inr (decremented(''_current_sprite_index'' \<mapsto>
                                                    IntV (current_sprite_index + 1))))
                                   else Inr decremented))))))"


definition CustomEndlessAnimation_update ::
  "'r attributes \<Rightarrow> units \<Rightarrow> 'r attributes \<Rightarrow> error + 'r attributes" where
  "CustomEndlessAnimation_update class_attributes world self =
     Animation_update EndlessAnimation_handle_finish class_attributes world self"

section \<open>pygame_renders.py: PygameSurfaceRender\<close>

text \<open>
  The types a resource can have: the host library's \<open>Surface\<close>, the seven primitives of
  \<open>pygame_resources\<close>, and any other type, given by its name.
\<close>

datatype resource_type =
    Surface_type
  | Polygon_type
  | Line_type
  | Lines_type
  | Circle_type
  | Rectangle_type
  | Ellipse_type
  | Arc_type
  | Other_type string

text \<open>
  The class body of \<open>PygameSurfaceRender\<close> decorates eight functions with
  \<open>@Render.resource_handler(supported_resource_type=...)\<close>; in the order of the source,
  each with the type it declares.
\<close>

definition PygameSurfaceRender_resource_handlers :: "(resource_type \<times> string) list" where
  "PygameSurfaceRender_resource_handlers =
     [(Surface_type, ''_handle_pygame_surface''),
      (Polygon_type, ''_handle_pygame_polygon''),
      (Line_type, ''_handle_pygame_line''),
      (Lines_type, ''_handle_pygame_lines''),
      (Circle_type, ''_handle_pygame_circle''),
      (Rectangle_type, ''_handle_pygame_rect''),
      (Ellipse_type, ''_handle_pygame_ellipse''),
      (Arc_type, ''_handle_pygame_arc'')]"

text \<open>
  Modelled from the spec: the dispatch of \<open>Render\<close> (module \<open>renders\<close>, not among the
  source files). For a resource pack the routine registered for the exact type of its
  resource is looked up; the presentation fails with a NotFound error when no routine
  is registered for that type. The result is the routine to run.
\<close>

definition Render_find_handler :: "(resource_type \<times> 'h) list \<Rightarrow> resource_type \<Rightarrow> error + 'h" where
  "Render_find_handler handlers type_of_resource =
     (case map_of handlers type_of_resource of
        None \<Rightarrow> Inl NotFoundError
      | Some handler \<Rightarrow> Inr handler)"

definition Render_draw_resource_pack ::
  "(resource_type \<times> 'h) list \<Rightarrow> ('r \<Rightarrow> resource_type) \<Rightarrow> 'r ResourcePack \<Rightarrow> error + 'h" where
  "Render_draw_resource_pack handlers type_of pack =
     Render_find_handler handlers (type_of (resource pack))"

section \<open>Evenly spaced points, stated on coordinates\<close>

text \<open>
  The spec's description of the points on a segment, written on bare coordinate lists and
  independent of the operations of \<open>Vector\<close>: a missing coordinate counts as 0; the point
  number 0 is the start and the point number k is the start plus k times the step,
  coordinate by coordinate; the distance between two points is the Euclidean one.
\<close>

definition coordinate_or_zero :: "real list \<Rightarrow> nat \<Rightarrow> real" where
  "coordinate_or_zero cs i = (if i < length cs then cs ! i else 0)"

definition point_after_steps :: "real list \<Rightarrow> real list \<Rightarrow> nat \<Rightarrow> real list" where
  "point_after_steps start step k =
     (if k = 0 then start
      else map (\<lambda>i. coordinate_or_zero start i + real k * coordinate_or_zero step i)
             [0..<max (length start) (length step)])"

definition distance_between :: "real list \<Rightarrow> real list \<Rightarrow> real" where
  "distance_between p q =
     sqrt (sum_list (map (\<lambda>i. (coordinate_or_zero p i - coordinate_or_zero q i) ^ 2)
                       [0..<max (length p) (length q)]))"

section \<open>Vector arithmetic\<close>

lemma coordinates_vec: "coordinates (vec cs) = cs" by (simp add: vec_def)

lemma add_padded:
  "add a b = vec (map (\<lambda>(first, second). first + second)
     (zip (coordinates a @ replicate (length (coordinates b) - length (coordinates a)) 0)
          (coordinates b @ replicate (length (coordinates a) - length (coordinates b)) 0)))"
  by (cases "length (coordinates a) \<le> length (coordinates b)")
     (auto simp add: add_def get_normalized_to_measurements_def coordinates_vec Let_def max_def nat_diff_distrib')

lemma reflected_all: "get_reflected_by_coordinates v None = vec (map (\<lambda>c. - c) (coordinates v))"
proof -
  have "map (\<lambda>(coordinate_index, coordinate).
              coordinate * (if int coordinate_index \<in> set (map int [0..<length cs]) then - 1 else 1))
          (zip [0..<length cs] cs) = map (\<lambda>c. - c) cs" for cs :: "real list"
    by (rule nth_equalityI) auto
  then show ?thesis
    by (simp add: get_reflected_by_coordinates_def)
qed

lemma sub_self_coordinates: "coordinates (sub p p) = replicate (length (coordinates p)) 0"
proof -
  have "map (\<lambda>(first, second). first + second) (zip cs (map (\<lambda>c. - c) cs)) = replicate (length cs) 0"
    for cs :: "real list"
    by (induction cs) auto
  then show ?thesis
    by (simp add: sub_def reflected_all add_padded coordinates_vec)
qed

lemma length_v_sub_self: "length_v (sub p p) = 0"
  by (simp add: length_v_def sub_self_coordinates sum_list_replicate)


lemma map2_add_commute:
  "map (\<lambda>(first, second). first + second) (zip xs ys) =
   map (\<lambda>(first, second). first + (second::real)) (zip ys xs)"
  by (induction xs ys rule: list_induct2') auto

text \<open>
  C5. For every two vectors, of equal or of differing coordinate counts, the sum is the
  pairwise sum of the operands after each has been padded on the right with 0 up to the
  coordinate count of the other; it has as many coordinates as the longer operand; and
  (1,2) + (1,2,3) = (2,4,3).
\<close>

theorem add_pads_shorter_operand:
  "add a b =
     vec (map (\<lambda>(first, second). first + second)
       (zip (coordinates a @ replicate (length (coordinates b) - length (coordinates a)) 0)
            (coordinates b @ replicate (length (coordinates a) - length (coordinates b)) 0)))
   \<and> length (coordinates (add a b)) = max (length (coordinates a)) (length (coordinates b))
   \<and> add (vec [1, 2]) (vec [1, 2, 3]) = vec [2, 4, 3]"
  by (simp add: add_padded coordinates_vec max_def)

text \<open>
  C7. For every two vectors, the difference a - b is the sum of a and the reflection of
  b; the reflection with no selected indexes negates every coordinate; and
  (5,5) - (2,3) = (3,2) = (5,5) + (-2,-3).
\<close>

theorem sub_is_add_of_reflection:
  "sub a b = add a (get_reflected_by_coordinates b None)
   \<and> get_reflected_by_coordinates b None = vec (map (\<lambda>coordinate. - coordinate) (coordinates b))
   \<and> sub (vec [5, 5]) (vec [2, 3]) = vec [3, 2]
   \<and> add (vec [5, 5]) (vec [- 2, - 3]) = vec [3, 2]"
  by (simp add: sub_def reflected_all add_padded coordinates_vec)

text \<open>
  C10. Vector addition is commutative: a + b = b + a for every two vectors, whatever
  their coordinate counts.
\<close>

theorem add_commutative: "add a b = add b a"
  by (simp only: add_padded map2_add_commute[of "coordinates a @ _"])

section \<open>The feasibility check of VectorDivider\<close>

text \<open>
  C3. For a segment whose start point equals its end point, the feasibility check does
  not return a failure report: building the report's message reads the unbound name
  \<open>vector\<close>, and the check raises \<open>NameError\<close>, for every distance and rounder; so does a
  call of the divider on that segment.
\<close>

theorem is_possible_to_divide_zero_length_raises_NameError:
  "is_possible_to_divide d \<lparr>start_point = p, end_point = p\<rparr> = Inl NameError
   \<and> Divider_call d \<lparr>start_point = p, end_point = p\<rparr> = Inl NameError"
  by (simp add: Divider_call_def is_possible_to_divide_def value_of_def length_v_sub_self
      load_name_def and_then_def geometry_module_names_def)

section \<open>The division of a segment into points\<close>

lemma sum_list_scaled: "sum_list (map (\<lambda>c. (c / f) ^ 2) cs) = sum_list (map (\<lambda>c. c ^ 2) cs) / f ^ 2" for f :: real
  by (induction cs) (simp_all add: power_divide add_divide_distrib)

lemma length_v_scaled: "length_v (vec (map (\<lambda>c. c / f) cs)) = length_v (vec cs) / \<bar>f\<bar>"
  by (simp add: length_v_def coordinates_vec comp_def sum_list_scaled real_sqrt_divide)

lemma vec_coordinates: "vec (coordinates v) = v" by (simp add: vec_def)

lemma append_created_points_steps:
  "created \<noteq> [] \<Longrightarrow>
   append_created_points created [length created..<length created + k] step =
     created @ map (\<lambda>j. ((\<lambda>p. add p step) ^^ Suc j) (last created)) [0..<k]"
proof (induction k arbitrary: created)
  case 0
  then show ?case by simp
next
  case (Suc k)
  let ?f = "\<lambda>p. add p step"
  let ?next = "created @ [add (created ! (length created - 1)) step]"
  have range: "[length created..<length created + Suc k] = length created # [length ?next..<length ?next + k]"
    by (simp add: upt_rec)
  have nth_last: "created ! (length created - 1) = last created"
    using Suc.prems by (simp add: last_conv_nth)
  have last_next: "last ?next = ?f (last created)"
    using nth_last by simp
  have "append_created_points created [length created..<length created + Suc k] step =
        append_created_points ?next [length ?next..<length ?next + k] step"
    by (simp only: range append_created_points.simps)
  also have "\<dots> = ?next @ map (\<lambda>j. (?f ^^ Suc j) (last ?next)) [0..<k]"
    by (rule Suc.IH) simp
  also have "\<dots> = created @ (?f (last created) # map (\<lambda>j. (?f ^^ Suc (Suc j)) (last created)) [0..<k])"
    using nth_last funpow_swap1[of ?f _ "last created"] by simp
  also have "\<dots> = created @ map (\<lambda>j. (?f ^^ Suc j) (last created)) [0..<Suc k]"
    by (simp only: map_upt_Suc[of "\<lambda>j. (?f ^^ Suc j) (last created)" k]) simp
  finally show ?case .
qed

lemma create_points_steps:
  "create_points d start (of_nat (Suc n)) step =
     map (\<lambda>k. get_rounded_by (((\<lambda>p. add p step) ^^ k) start) (rounder d)) [0..<Suc n]"
proof -
  let ?f = "\<lambda>p. add p step"
  have count: "nat \<lfloor>(of_nat (Suc n) :: real)\<rfloor> = Suc n"
    by (simp only: floor_of_nat nat_int)
  have "append_created_points [start] [1..<Suc n] step =
          [start] @ map (\<lambda>j. (?f ^^ Suc j) (last [start])) [0..<n]"
    using append_created_points_steps[of "[start]" n step] by simp
  also have "\<dots> = map (\<lambda>k. (?f ^^ k) start) [0..<Suc n]"
    by (simp only: map_upt_Suc[of "\<lambda>k. (?f ^^ k) start" n]) simp
  finally have "append_created_points [start] [1..<Suc n] step = map (\<lambda>k. (?f ^^ k) start) [0..<Suc n]" .
  then show ?thesis
    by (simp only: create_points_def count list.map_comp comp_def)
qed


lemma nth_padded:
  "i < max (length xs) n \<Longrightarrow> (xs @ replicate (n - length xs) 0) ! i = coordinate_or_zero xs i"
  by (auto simp add: coordinate_or_zero_def nth_append)

lemma add_indexwise:
  "add a b =
     vec (map (\<lambda>i. coordinate_or_zero (coordinates a) i + coordinate_or_zero (coordinates b) i)
            [0..<max (length (coordinates a)) (length (coordinates b))])"
proof -
  let ?xs = "coordinates a" and ?ys = "coordinates b"
  have "map (\<lambda>(first, second). first + second)
          (zip (?xs @ replicate (length ?ys - length ?xs) 0)
               (?ys @ replicate (length ?xs - length ?ys) 0)) =
        map (\<lambda>i. coordinate_or_zero ?xs i + coordinate_or_zero ?ys i)
          [0..<max (length ?xs) (length ?ys)]"
  proof (rule nth_equalityI)
    show "length (map (\<lambda>(first, second). first + second)
          (zip (?xs @ replicate (length ?ys - length ?xs) 0)
               (?ys @ replicate (length ?xs - length ?ys) 0))) =
        length (map (\<lambda>i. coordinate_or_zero ?xs i + coordinate_or_zero ?ys i)
          [0..<max (length ?xs) (length ?ys)])"
      by simp
  next
    fix i
    assume "i < length (map (\<lambda>(first, second). first + second)
          (zip (?xs @ replicate (length ?ys - length ?xs) 0)
               (?ys @ replicate (length ?xs - length ?ys) 0)))"
    then have i: "i < max (length ?xs) (length ?ys)"
      by simp
    have "(?xs @ replicate (length ?ys - length ?xs) 0) ! i = coordinate_or_zero ?xs i"
      using i nth_padded[of i ?xs "length ?ys"] by simp
    moreover have "(?ys @ replicate (length ?xs - length ?ys) 0) ! i = coordinate_or_zero ?ys i"
      using i nth_padded[of i ?ys "length ?xs"] by (simp add: max.commute)
    ultimately show "map (\<lambda>(first, second). first + second)
          (zip (?xs @ replicate (length ?ys - length ?xs) 0)
               (?ys @ replicate (length ?xs - length ?ys) 0)) ! i =
        map (\<lambda>i. coordinate_or_zero ?xs i + coordinate_or_zero ?ys i)
          [0..<max (length ?xs) (length ?ys)] ! i"
      using i by simp
  qed
  then show ?thesis
    by (simp only: add_padded)
qed

lemma length_point_after_steps:
  "length (point_after_steps start step (Suc k)) = max (length start) (length step)"
  by (simp add: point_after_steps_def)

lemma coordinate_of_point_after_steps:
  "i < max (length start) (length step) \<Longrightarrow>
   coordinate_or_zero (point_after_steps start step (Suc k)) i =
     coordinate_or_zero start i + real (Suc k) * coordinate_or_zero step i"
  by (simp add: point_after_steps_def coordinate_or_zero_def)

lemma add_step_to_point:
  "add (vec (point_after_steps start step k)) (vec step) = vec (point_after_steps start step (Suc k))"
proof (cases k)
  case 0
  then show ?thesis
    by (simp add: add_indexwise coordinates_vec point_after_steps_def)
next
  case (Suc j)
  let ?n = "max (length start) (length step)"
  let ?P = "point_after_steps start step (Suc j)"
  have len: "max (length ?P) (length step) = ?n"
    by (simp add: length_point_after_steps)
  have sum: "add (vec ?P) (vec step) =
      vec (map (\<lambda>i. coordinate_or_zero ?P i + coordinate_or_zero step i) [0..<?n])"
    by (simp only: add_indexwise coordinates_vec len)
  have pointwise: "map (\<lambda>i. coordinate_or_zero ?P i + coordinate_or_zero step i) [0..<?n] =
        map (\<lambda>i. coordinate_or_zero start i + real (Suc (Suc j)) * coordinate_or_zero step i) [0..<?n]"
    by (rule map_cong) (simp_all add: coordinate_of_point_after_steps algebra_simps)
  have next_point: "point_after_steps start step (Suc (Suc j)) =
        map (\<lambda>i. coordinate_or_zero start i + real (Suc (Suc j)) * coordinate_or_zero step i) [0..<?n]"
    by (simp add: point_after_steps_def)
  show ?thesis
    by (simp only: Suc sum pointwise next_point)
qed

lemma iterate_add_step:
  "((\<lambda>point. add point (vec step)) ^^ k) start = vec (point_after_steps (coordinates start) step k)"
proof (induction k)
  case 0
  then show ?case by (simp add: point_after_steps_def vec_coordinates)
next
  case (Suc k)
  then show ?case by (simp add: add_step_to_point)
qed

lemma sum_squares_padded:
  "length xs \<le> n \<Longrightarrow>
   sum_list (map (\<lambda>i. (coordinate_or_zero xs i) ^ 2) [0..<n]) = sum_list (map (\<lambda>c. c ^ 2) xs)"
proof -
  assume le: "length xs \<le> n"
  have split: "[0..<n] = [0..<length xs] @ [length xs..<n]"
    using le by (metis le_add_diff_inverse upt_add_eq_append zero_le)
  have first: "map (\<lambda>i. (coordinate_or_zero xs i) ^ 2) [0..<length xs] = map (\<lambda>c. c ^ 2) xs"
    by (rule nth_equalityI) (simp_all add: coordinate_or_zero_def)
  have rest: "map (\<lambda>i. (coordinate_or_zero xs i) ^ 2) [length xs..<n] = replicate (n - length xs) 0"
    by (rule nth_equalityI) (simp_all add: coordinate_or_zero_def)
  show ?thesis
    by (simp only: split map_append sum_list_append first rest) (simp add: sum_list_replicate)
qed

lemma distance_between_consecutive_points:
  "distance_between (point_after_steps start step (Suc k)) (point_after_steps start step k) =
     length_v (vec step)"
proof -
  let ?n = "max (length start) (length step)"
  have len: "max (length (point_after_steps start step (Suc k))) (length (point_after_steps start step k)) = ?n"
    by (cases k) (simp_all add: point_after_steps_def)
  have diff: "coordinate_or_zero (point_after_steps start step (Suc k)) i -
              coordinate_or_zero (point_after_steps start step k) i = coordinate_or_zero step i"
    if "i < ?n" for i
  proof (cases k)
    case 0
    then show ?thesis
      using that by (simp add: coordinate_of_point_after_steps) (simp add: point_after_steps_def)
  next
    case (Suc j)
    then show ?thesis
      using that by (simp add: coordinate_of_point_after_steps algebra_simps)
  qed
  have squares: "map (\<lambda>i. (coordinate_or_zero (point_after_steps start step (Suc k)) i -
                  coordinate_or_zero (point_after_steps start step k) i) ^ 2) [0..<?n] =
        map (\<lambda>i. (coordinate_or_zero step i) ^ 2) [0..<?n]"
    by (rule map_cong) (simp_all add: diff)
  have "distance_between (point_after_steps start step (Suc k)) (point_after_steps start step k) =
        sqrt (sum_list (map (\<lambda>i. (coordinate_or_zero step i) ^ 2) [0..<?n]))"
    by (simp only: distance_between_def len squares)
  also have "\<dots> = sqrt (sum_list (map (\<lambda>c. c ^ 2) step))"
    by (subst sum_squares_padded) simp_all
  also have "\<dots> = length_v (vec step)"
    by (simp add: length_v_def coordinates_vec)
  finally show ?thesis .
qed

text \<open>
  C6. For a segment whose displacement has length 10, a divider with distance 1 between
  points and a rounder that leaves 10 as it is: the division returns exactly 11 points;
  the point number k (from 0) is, coordinate by coordinate, the rounded value of the start
  plus k times the step, where the step is the displacement divided by 10 and a missing
  coordinate of the start counts as 0; the point number 0 is the start itself before
  rounding, and each next point before rounding lies at distance 1 from the previous one.
  When the rounder changes none of these coordinates (no rounding loss), the returned
  points are these points themselves, so they start at the start point and are 1 apart.
\<close>

theorem divide_length_ten_gives_eleven_points:
  assumes "length_v (value_of v) = 10"
    and "distance_between_points d = 1"
    and "rounder d 10 = 10"
  shows "VectorDivider_divide d v =
           Inr (map (\<lambda>k. vec (map (rounder d)
                      (point_after_steps (coordinates (start_point v))
                         (map (\<lambda>coordinate. coordinate / 10) (coordinates (value_of v))) k)))
                  [0..<11])
         \<and> point_after_steps (coordinates (start_point v))
               (map (\<lambda>coordinate. coordinate / 10) (coordinates (value_of v))) 0 =
             coordinates (start_point v)
         \<and> (\<forall>k<10. distance_between
               (point_after_steps (coordinates (start_point v))
                  (map (\<lambda>coordinate. coordinate / 10) (coordinates (value_of v))) (Suc k))
               (point_after_steps (coordinates (start_point v))
                  (map (\<lambda>coordinate. coordinate / 10) (coordinates (value_of v))) k) = 1)
         \<and> ((\<forall>k<11. \<forall>c\<in>set (point_after_steps (coordinates (start_point v))
                        (map (\<lambda>coordinate. coordinate / 10) (coordinates (value_of v))) k).
                 rounder d c = c) \<longrightarrow>
             (\<exists>points.
                VectorDivider_divide d v = Inr points
                \<and> length points = 11
                \<and> points ! 0 = start_point v
                \<and> (\<forall>k<10. distance_between (coordinates (points ! Suc k))
                             (coordinates (points ! k)) = 1)
                \<and> (\<forall>k<11. coordinates (points ! k) =
                      point_after_steps (coordinates (start_point v))
                        (map (\<lambda>coordinate. coordinate / 10) (coordinates (value_of v))) k)))"
proof -
  let ?step = "map (\<lambda>coordinate. coordinate / 10) (coordinates (value_of v))"
  let ?point = "point_after_steps (coordinates (start_point v)) ?step"
  have step: "length_v (vec ?step) = 1"
    using assms(1) by (simp add: length_v_scaled vec_coordinates)
  have eleven: "(11::real) = of_nat (Suc 10)"
    by simp
  have "VectorDivider_divide d v = Inr (create_points d (start_point v) 11 (vec ?step))"
    using assms step by (simp add: VectorDivider_divide_def Let_def)
  also have "create_points d (start_point v) 11 (vec ?step) =
      map (\<lambda>k. get_rounded_by (((\<lambda>point. add point (vec ?step)) ^^ k) (start_point v)) (rounder d))
        [0..<Suc 10]"
    by (simp only: eleven create_points_steps)
  also have "\<dots> = map (\<lambda>k. vec (map (rounder d) (?point k))) [0..<11]"
    by (simp add: iterate_add_step get_rounded_by_def coordinates_vec)
  finally have result:
    "VectorDivider_divide d v = Inr (map (\<lambda>k. vec (map (rounder d) (?point k))) [0..<11])" .
  have first: "?point 0 = coordinates (start_point v)"
    by (simp add: point_after_steps_def)
  have spacing: "\<forall>k<10. distance_between (?point (Suc k)) (?point k) = 1"
    by (simp add: distance_between_consecutive_points step)
  have lossless:
    "\<exists>points. VectorDivider_divide d v = Inr points
       \<and> length points = 11
       \<and> points ! 0 = start_point v
       \<and> (\<forall>k<10. distance_between (coordinates (points ! Suc k)) (coordinates (points ! k)) = 1)
       \<and> (\<forall>k<11. coordinates (points ! k) = ?point k)"
    if fixed: "\<forall>k<11. \<forall>c\<in>set (?point k). rounder d c = c"
  proof -
    let ?points = "map (\<lambda>k. vec (?point k)) [0..<11]"
    have "map (rounder d) (?point k) = ?point k" if "k < 11" for k
      using fixed that by (simp add: map_idI)
    then have "map (\<lambda>k. vec (map (rounder d) (?point k))) [0..<11] = ?points"
      by (intro map_cong) simp_all
    then have returned: "VectorDivider_divide d v = Inr ?points"
      by (simp only: result)
    have nth: "?points ! k = vec (?point k)" if "k < 11" for k
      using that by (simp del: upt_Suc)
    have count: "length ?points = 11"
      by simp
    have "(0::nat) < 11"
      by simp
    then have zeroth: "?points ! 0 = vec (?point 0)"
      by (rule nth)
    have start: "?points ! 0 = start_point v"
      by (simp only: zeroth first vec_coordinates)
    have apart: "\<forall>k<10. distance_between (coordinates (?points ! Suc k))
        (coordinates (?points ! k)) = 1"
    proof (intro allI impI)
      fix k :: nat
      assume below: "k < 10"
      then have "Suc k < 11"
        by simp
      then have later: "?points ! Suc k = vec (?point (Suc k))"
        by (rule nth)
      from below have "k < 11"
        by simp
      then have earlier: "?points ! k = vec (?point k)"
        by (rule nth)
      have "distance_between (?point (Suc k)) (?point k) = 1"
        using spacing below by blast
      then show "distance_between (coordinates (?points ! Suc k)) (coordinates (?points ! k)) = 1"
        by (simp only: later earlier coordinates_vec)
    qed
    have coords: "\<forall>k<11. coordinates (?points ! k) = ?point k"
    proof (intro allI impI)
      fix k :: nat
      assume "k < 11"
      then have "?points ! k = vec (?point k)"
        by (rule nth)
      then show "coordinates (?points ! k) = ?point k"
        by (simp only: coordinates_vec)
    qed
    show ?thesis
      using returned count start apart coords by blast
  qed
  show ?thesis
    using result first spacing lossless by blast
qed

lemma upt_eleven: "[0..<11] = [0, 1, 2, 3, 4, 5, 6, 7, 8, 9, 10]"
  by (simp add: upt_rec)

lemma value_of_plane: "value_of \<lparr>start_point = vec [a, b], end_point = vec [c, d]\<rparr> = vec [c - a, d - b]"
  by (simp add: value_of_def sub_def reflected_all add_padded coordinates_vec)

lemma length_v_along_first_axis: "0 \<le> x \<Longrightarrow> length_v (vec [x, 0]) = x"
  by (simp add: length_v_def coordinates_vec)

lemma eleven_points_along_first_axis:
  "map (\<lambda>k. vec (map r (point_after_steps [a, 0] [1, 0] k))) [0..<11] =
     [vec [r a, r 0], vec [r (a + 1), r 0], vec [r (a + 2), r 0], vec [r (a + 3), r 0],
      vec [r (a + 4), r 0], vec [r (a + 5), r 0], vec [r (a + 6), r 0], vec [r (a + 7), r 0],
      vec [r (a + 8), r 0], vec [r (a + 9), r 0], vec [r (a + 10), r 0]]"
  by (simp add: upt_eleven point_after_steps_def coordinate_or_zero_def upt_rec)

theorem divide_length_ten_gives_eleven_points_witness:
  "length_v (value_of \<lparr>start_point = vec [0, 0], end_point = vec [10, 0]\<rparr>) = 10
   \<and> distance_between_points \<lparr>distance_between_points = 1, rounder = (\<lambda>x. x)\<rparr> = 1
   \<and> rounder \<lparr>distance_between_points = 1, rounder = (\<lambda>x. x)\<rparr> 10 = 10
   \<and> VectorDivider_divide \<lparr>distance_between_points = 1, rounder = (\<lambda>x. x)\<rparr>
        \<lparr>start_point = vec [0, 0], end_point = vec [10, 0]\<rparr> =
       Inr [vec [0, 0], vec [1, 0], vec [2, 0], vec [3, 0], vec [4, 0], vec [5, 0],
            vec [6, 0], vec [7, 0], vec [8, 0], vec [9, 0], vec [10, 0]]
   \<and> distance_between [1, 0] [0, 0] = 1
   \<and> length_v (value_of \<lparr>start_point = vec [1 / 2, 0], end_point = vec [21 / 2, 0]\<rparr>) = 10
   \<and> VectorDivider_divide \<lparr>distance_between_points = 1, rounder = (\<lambda>x. of_int \<lfloor>x\<rfloor>)\<rparr>
        \<lparr>start_point = vec [1 / 2, 0], end_point = vec [21 / 2, 0]\<rparr> =
       Inr [vec [0, 0], vec [1, 0], vec [2, 0], vec [3, 0], vec [4, 0], vec [5, 0],
            vec [6, 0], vec [7, 0], vec [8, 0], vec [9, 0], vec [10, 0]]"
proof -
  let ?exact = "\<lparr>distance_between_points = 1, rounder = (\<lambda>x::real. x)\<rparr>"
  let ?floor = "\<lparr>distance_between_points = 1, rounder = (\<lambda>x::real. of_int \<lfloor>x\<rfloor>)\<rparr>"
  let ?whole = "\<lparr>start_point = vec [0, 0], end_point = vec [10, 0]\<rparr>"
  let ?half = "\<lparr>start_point = vec [1 / 2, 0], end_point = vec [21 / 2, 0]\<rparr>"
  have whole: "value_of ?whole = vec [10, 0]" and half: "value_of ?half = vec [10, 0]"
    by (simp_all add: value_of_plane)
  have ten: "length_v (vec [10, 0]) = 10"
    by (simp add: length_v_along_first_axis)
  have len_whole: "length_v (value_of ?whole) = 10" and len_half: "length_v (value_of ?half) = 10"
    by (simp_all only: whole half ten)
  note whole_instance = divide_length_ten_gives_eleven_points [of ?whole ?exact, OF len_whole]
  have exact: "VectorDivider_divide ?exact ?whole =
      Inr [vec [0, 0], vec [1, 0], vec [2, 0], vec [3, 0], vec [4, 0], vec [5, 0],
           vec [6, 0], vec [7, 0], vec [8, 0], vec [9, 0], vec [10, 0]]"
    using whole_instance
    by (simp add: whole coordinates_vec
        eleven_points_along_first_axis [where r = "\<lambda>x. x" and a = 0, simplified])
  have "\<forall>k<10. distance_between (point_after_steps [0, 0] [1, 0] (Suc k))
                  (point_after_steps [0, 0] [1, 0] k) = 1"
    using whole_instance by (simp add: whole coordinates_vec)
  then have "distance_between (point_after_steps [0, 0] [1, 0] (Suc 0))
                  (point_after_steps [0, 0] [1, 0] 0) = 1"
    by (metis zero_less_numeral)
  then have apart: "distance_between [1, 0] [0, 0] = 1"
    by (simp add: point_after_steps_def coordinate_or_zero_def upt_rec)
  have floors: "\<lfloor>1 / 2 :: real\<rfloor> = 0" "\<lfloor>3 / 2 :: real\<rfloor> = 1" "\<lfloor>5 / 2 :: real\<rfloor> = 2"
    "\<lfloor>7 / 2 :: real\<rfloor> = 3" "\<lfloor>9 / 2 :: real\<rfloor> = 4" "\<lfloor>11 / 2 :: real\<rfloor> = 5"
    "\<lfloor>13 / 2 :: real\<rfloor> = 6" "\<lfloor>15 / 2 :: real\<rfloor> = 7" "\<lfloor>17 / 2 :: real\<rfloor> = 8"
    "\<lfloor>19 / 2 :: real\<rfloor> = 9" "\<lfloor>21 / 2 :: real\<rfloor> = 10"
    by simp_all
  have rounded: "VectorDivider_divide ?floor ?half =
      Inr [vec [0, 0], vec [1, 0], vec [2, 0], vec [3, 0], vec [4, 0], vec [5, 0],
           vec [6, 0], vec [7, 0], vec [8, 0], vec [9, 0], vec [10, 0]]"
    using divide_length_ten_gives_eleven_points [of ?half ?floor, OF len_half]
    by (simp add: half coordinates_vec eleven_points_along_first_axis floors)
  show ?thesis
    using len_whole len_half exact apart rounded by simp
qed

section \<open>The endpoint setters of Line\<close>

lemma get_rounded_by_identity: "get_rounded_by (vec cs) (\<lambda>x. x) = vec cs"
  by (simp add: get_rounded_by_def coordinates_vec)

lemma divide_0_2:
  "Divider_call (default_vector_divider (\<lambda>x. x)) \<lparr>start_point = vec [0, 0], end_point = vec [2, 0]\<rparr> =
     Inr [vec [0, 0], vec [1, 0], vec [2, 0]]"
proof -
  have range: "[Suc 0..<3] = [Suc 0, 2]"
    by (simp add: upt_rec)
  show ?thesis
    by (simp add: Divider_call_def is_possible_to_divide_def Divider_is_possible_to_divide_def
        VectorDivider_divide_def default_vector_divider_def value_of_plane length_v_along_first_axis
        coordinates_vec create_points_def range add_padded get_rounded_by_identity and_then_def Let_def)
qed

lemma divide_1_2:
  "Divider_call (default_vector_divider (\<lambda>x. x)) \<lparr>start_point = vec [1, 0], end_point = vec [2, 0]\<rparr> =
     Inr [vec [1, 0], vec [2, 0]]"
proof -
  have range: "[Suc 0..<2] = [Suc 0]"
    by (simp add: upt_rec)
  show ?thesis
    by (simp add: Divider_call_def is_possible_to_divide_def Divider_is_possible_to_divide_def
        VectorDivider_divide_def default_vector_divider_def value_of_plane length_v_along_first_axis
        coordinates_vec create_points_def range add_padded get_rounded_by_identity and_then_def Let_def)
qed

lemma and_then_Inr_iff:
  "and_then r f = Inr y \<longleftrightarrow> (\<exists>x. r = Inr x \<and> f x = Inr y)"
  by (cases r) (simp_all add: and_then_def)

lemma update_all_available_points_result:
  assumes "update_all_available_points line = Inr updated"
  shows "Divider_call (Line_vector_divider line)
           \<lparr>start_point = first_point line, end_point = second_point line\<rparr> =
           Inr (all_available_points updated)
         \<and> first_point updated = first_point line
         \<and> second_point updated = second_point line
         \<and> Line_vector_divider updated = Line_vector_divider line"
  using assms by (auto simp add: update_all_available_points_def and_then_Inr_iff)

text \<open>
  C4. When a setter of \<open>first_point\<close> or \<open>second_point\<close> returns, the cached points are the
  division of the segment between the endpoints the line had before the assignment, and
  the assigned endpoint is the new one; the newly assigned endpoint enters the cache only
  with the next setter call, which divides the segment that starts at it.
\<close>

theorem setter_caches_points_of_old_endpoints:
  "(set_first_point line p = Inr a \<longrightarrow>
      Divider_call (Line_vector_divider line)
        \<lparr>start_point = first_point line, end_point = second_point line\<rparr> =
        Inr (all_available_points a)
      \<and> first_point a = p \<and> second_point a = second_point line)
   \<and> (set_second_point line q = Inr b \<longrightarrow>
      Divider_call (Line_vector_divider line)
        \<lparr>start_point = first_point line, end_point = second_point line\<rparr> =
        Inr (all_available_points b)
      \<and> first_point b = first_point line \<and> second_point b = q)
   \<and> (set_first_point line p = Inr a \<and> set_second_point a r = Inr c \<longrightarrow>
      Divider_call (Line_vector_divider line)
        \<lparr>start_point = p, end_point = second_point line\<rparr> =
        Inr (all_available_points c))"
  by (auto simp add: set_first_point_def set_second_point_def and_then_Inr_iff
      dest!: update_all_available_points_result)

lemma Line_init_0_2:
  "Line_init (default_vector_divider (\<lambda>x. x)) (vec [0, 0]) (vec [2, 0]) =
     Inr \<lparr>Line_vector_divider = default_vector_divider (\<lambda>x. x), Line_rounder = (\<lambda>x. x),
          first_point = vec [0, 0], second_point = vec [2, 0],
          all_available_points = [vec [0, 0], vec [1, 0], vec [2, 0]]\<rparr>"
  by (simp add: Line_init_def update_all_available_points_def divide_0_2 and_then_def)
     (simp add: default_vector_divider_def)

lemma set_first_point_0_2:
  "set_first_point
     \<lparr>Line_vector_divider = default_vector_divider (\<lambda>x. x), Line_rounder = (\<lambda>x. x),
          first_point = vec [0, 0], second_point = vec [2, 0],
          all_available_points = [vec [0, 0], vec [1, 0], vec [2, 0]]\<rparr> (vec [1, 0]) =
   Inr \<lparr>Line_vector_divider = default_vector_divider (\<lambda>x. x), Line_rounder = (\<lambda>x. x),
          first_point = vec [1, 0], second_point = vec [2, 0],
          all_available_points = [vec [0, 0], vec [1, 0], vec [2, 0]]\<rparr>"
  by (simp add: set_first_point_def update_all_available_points_def divide_0_2 and_then_def)

lemma set_second_point_0_2:
  "set_second_point
     \<lparr>Line_vector_divider = default_vector_divider (\<lambda>x. x), Line_rounder = (\<lambda>x. x),
          first_point = vec [0, 0], second_point = vec [2, 0],
          all_available_points = [vec [0, 0], vec [1, 0], vec [2, 0]]\<rparr> (vec [3, 0]) =
   Inr \<lparr>Line_vector_divider = default_vector_divider (\<lambda>x. x), Line_rounder = (\<lambda>x. x),
          first_point = vec [0, 0], second_point = vec [3, 0],
          all_available_points = [vec [0, 0], vec [1, 0], vec [2, 0]]\<rparr>"
  by (simp add: set_second_point_def update_all_available_points_def divide_0_2 and_then_def)

lemma set_second_point_1_2:
  "set_second_point
     \<lparr>Line_vector_divider = default_vector_divider (\<lambda>x. x), Line_rounder = (\<lambda>x. x),
          first_point = vec [1, 0], second_point = vec [2, 0],
          all_available_points = [vec [0, 0], vec [1, 0], vec [2, 0]]\<rparr> (vec [3, 0]) =
   Inr \<lparr>Line_vector_divider = default_vector_divider (\<lambda>x. x), Line_rounder = (\<lambda>x. x),
          first_point = vec [1, 0], second_point = vec [3, 0],
          all_available_points = [vec [1, 0], vec [2, 0]]\<rparr>"
  by (simp add: set_second_point_def update_all_available_points_def divide_1_2 and_then_def)

theorem setter_caches_points_of_old_endpoints_witness:
  "set_first_point
     \<lparr>Line_vector_divider = default_vector_divider (\<lambda>x. x), Line_rounder = (\<lambda>x. x),
          first_point = vec [0, 0], second_point = vec [2, 0],
          all_available_points = [vec [0, 0], vec [1, 0], vec [2, 0]]\<rparr> (vec [1, 0]) =
   Inr \<lparr>Line_vector_divider = default_vector_divider (\<lambda>x. x), Line_rounder = (\<lambda>x. x),
          first_point = vec [1, 0], second_point = vec [2, 0],
          all_available_points = [vec [0, 0], vec [1, 0], vec [2, 0]]\<rparr>
   \<and> set_second_point
     \<lparr>Line_vector_divider = default_vector_divider (\<lambda>x. x), Line_rounder = (\<lambda>x. x),
          first_point = vec [0, 0], second_point = vec [2, 0],
          all_available_points = [vec [0, 0], vec [1, 0], vec [2, 0]]\<rparr> (vec [3, 0]) =
   Inr \<lparr>Line_vector_divider = default_vector_divider (\<lambda>x. x), Line_rounder = (\<lambda>x. x),
          first_point = vec [0, 0], second_point = vec [3, 0],
          all_available_points = [vec [0, 0], vec [1, 0], vec [2, 0]]\<rparr>
   \<and> set_second_point
     \<lparr>Line_vector_divider = default_vector_divider (\<lambda>x. x), Line_rounder = (\<lambda>x. x),
          first_point = vec [1, 0], second_point = vec [2, 0],
          all_available_points = [vec [0, 0], vec [1, 0], vec [2, 0]]\<rparr> (vec [3, 0]) =
   Inr \<lparr>Line_vector_divider = default_vector_divider (\<lambda>x. x), Line_rounder = (\<lambda>x. x),
          first_point = vec [1, 0], second_point = vec [3, 0],
          all_available_points = [vec [1, 0], vec [2, 0]]\<rparr>
   \<and> Divider_call (default_vector_divider (\<lambda>x. x)) \<lparr>start_point = vec [0, 0], end_point = vec [2, 0]\<rparr> =
       Inr [vec [0, 0], vec [1, 0], vec [2, 0]]
   \<and> Divider_call (default_vector_divider (\<lambda>x. x)) \<lparr>start_point = vec [1, 0], end_point = vec [2, 0]\<rparr> =
       Inr [vec [1, 0], vec [2, 0]]
   \<and> [vec [0, 0], vec [1, 0], vec [2, 0]] \<noteq> [vec [1, 0], vec [2, 0]]"
  using setter_caches_points_of_old_endpoints
    [where line = "\<lparr>Line_vector_divider = default_vector_divider (\<lambda>x. x), Line_rounder = (\<lambda>x. x),
          first_point = vec [0, 0], second_point = vec [2, 0],
          all_available_points = [vec [0, 0], vec [1, 0], vec [2, 0]]\<rparr>"
       and p = "vec [1, 0]"
       and a = "\<lparr>Line_vector_divider = default_vector_divider (\<lambda>x. x), Line_rounder = (\<lambda>x. x),
          first_point = vec [1, 0], second_point = vec [2, 0],
          all_available_points = [vec [0, 0], vec [1, 0], vec [2, 0]]\<rparr>"
       and q = "vec [3, 0]"
       and b = "\<lparr>Line_vector_divider = default_vector_divider (\<lambda>x. x), Line_rounder = (\<lambda>x. x),
          first_point = vec [0, 0], second_point = vec [3, 0],
          all_available_points = [vec [0, 0], vec [1, 0], vec [2, 0]]\<rparr>"
       and r = "vec [3, 0]"
       and c = "\<lparr>Line_vector_divider = default_vector_divider (\<lambda>x. x), Line_rounder = (\<lambda>x. x),
          first_point = vec [1, 0], second_point = vec [3, 0],
          all_available_points = [vec [1, 0], vec [2, 0]]\<rparr>"]
  by (simp add: set_first_point_0_2 set_second_point_0_2 set_second_point_1_2)

section \<open>The construction and the update of animations\<close>

lemma abstractmethods_PrimitiveAvatar: "abstractmethods PrimitiveAvatar_mro = []"
  by (simp add: abstractmethods_def PrimitiveAvatar_mro_def PrimitiveAvatar_body_def
      ResourceAvatar_body_def SingleResourcePackAvatar_body_def Avatar_body_def IAvatar_body_def
      IUpdatable_body_def)

lemma PrimitiveAvatar_construct_runs_init:
  "PrimitiveAvatar_construct world unit_ref given_resource =
     PrimitiveAvatar_init world unit_ref given_resource"
  by (simp add: PrimitiveAvatar_construct_def instantiate_def abstractmethods_PrimitiveAvatar)

lemma abstractmethods_CustomAnimation: "abstractmethods CustomAnimation_mro = [''render_resource'']"
  by (simp add: abstractmethods_def CustomAnimation_mro_def CustomAnimation_body_def Animation_body_def
      SingleResourcePackAvatar_body_def Avatar_body_def IAvatar_body_def IUpdatable_body_def)

lemma abstractmethods_CustomEndlessAnimation:
  "abstractmethods CustomEndlessAnimation_mro = [''render_resource'']"
  by (simp add: abstractmethods_def CustomEndlessAnimation_mro_def CustomEndlessAnimation_body_def
      EndlessAnimation_body_def CustomAnimation_body_def Animation_body_def
      SingleResourcePackAvatar_body_def Avatar_body_def IAvatar_body_def IUpdatable_body_def)

lemma abstractmethods_render_resource_subclass:
  "abstractmethods ([(''render_resource'', False)] # CustomAnimation_mro) = []"
  by (simp add: abstractmethods_def CustomAnimation_mro_def CustomAnimation_body_def Animation_body_def
      SingleResourcePackAvatar_body_def Avatar_body_def IAvatar_body_def IUpdatable_body_def)


lemma CustomAnimation_init_method_raises:
  "CustomAnimation_init_method Animation_class_attributes world unit_ref sprites = Inl AttributeError"
  by (simp add: CustomAnimation_init_method_def Animation_init_method_def
      update_main_resource_pack_def get_sprites_def getattr_def
      Avatar_init_def Animation_class_attributes_def and_then_def)













text \<open>
  C2. For every unit and every sprite sequence, the calls \<open>CustomAnimation(unit, sprites)\<close>
  and \<open>CustomEndlessAnimation(unit, sprites)\<close> raise \<open>TypeError\<close> before \<open>__init__\<close> or any
  update runs: both classes leave the abstract \<open>render_resource\<close> of \<open>IAvatar\<close>
  unimplemented. For a subclass that adds nothing but \<open>render_resource\<close> the call reaches
  \<open>__init__\<close> and raises \<open>AttributeError\<close>: the constructor of \<open>Animation\<close> refreshes the
  main pack while the object has no attribute \<open>_sprites\<close> yet, and the mangled attribute
  that the refresh reads for the index does not exist either, also once \<open>_sprites\<close> is
  there.
\<close>

theorem CustomAnimation_construct_raises_TypeError:
  "CustomAnimation_construct world unit_ref sprites = Inl TypeError
   \<and> CustomEndlessAnimation_construct world unit_ref sprites = Inl TypeError
   \<and> abstractmethods CustomAnimation_mro = [''render_resource'']
   \<and> abstractmethods CustomEndlessAnimation_mro = [''render_resource'']
   \<and> CustomAnimation_subclass_construct [(''render_resource'', False)] Map.empty
        world unit_ref sprites = Inl AttributeError
   \<and> getattr Animation_class_attributes (Avatar_init unit_ref) ''_sprites'' = Inl AttributeError
   \<and> mangle ''Animation'' ''__current_sprite_index'' = ''_Animation__current_sprite_index''
   \<and> getattr Animation_class_attributes ((Avatar_init unit_ref)(''_sprites'' \<mapsto> SpritesV sprites))
        ''_Animation__current_sprite_index'' = Inl AttributeError
   \<and> update_main_resource_pack Animation_class_attributes world
        ((Avatar_init unit_ref)(''_sprites'' \<mapsto> SpritesV sprites)) = Inl AttributeError"
  by (simp add: CustomAnimation_construct_def CustomEndlessAnimation_construct_def
      CustomAnimation_subclass_construct_def instantiate_def abstractmethods_CustomAnimation
      abstractmethods_CustomEndlessAnimation abstractmethods_render_resource_subclass
      CustomAnimation_init_method_raises)
     (simp add: update_main_resource_pack_def get_sprites_def get_int_def getattr_def mangle_def
      Avatar_init_def Animation_class_attributes_def and_then_def)

text \<open>
  The claim C2 as it was stated, that the construction raises \<open>AttributeError\<close>, fails at
  a unit at the origin and one sprite: the call raises \<open>TypeError\<close>.
\<close>

theorem CustomAnimation_construct_counterexample:
  "CustomAnimation_construct (\<lambda>_. \<lparr>position = vec [0, 0]\<rparr>) 0 [Sprite_init ''frame'' 1] =
     Inl TypeError
   \<and> CustomAnimation_construct (\<lambda>_. \<lparr>position = vec [0, 0]\<rparr>) 0 [Sprite_init ''frame'' 1] \<noteq>
     Inl AttributeError"
  by (simp add: CustomAnimation_construct_def instantiate_def abstractmethods_CustomAnimation)



section \<open>The update of single-pack avatars\<close>

lemma PrimitiveAvatar_init_result:
  "PrimitiveAvatar_init world unit_ref given_resource =
     Inr (Map.empty(''_unit'' \<mapsto> UnitRef unit_ref,
            ''_main_resource_pack'' \<mapsto>
              PackV \<lparr>resource = given_resource, point = position (world unit_ref)\<rparr>))"
  by (simp add: PrimitiveAvatar_init_def ResourceAvatar_init_def Avatar_init_def unit_position_def
      get_unit_ref_def getattr_def and_then_def Let_def)

text \<open>
  C8. For an avatar that holds its unit and a main pack (as every resource and primitive
  avatar does from its constructor on), every call of the update of
  \<open>SingleResourcePackAvatar\<close> returns, and afterwards the main pack is the old one with its
  point set to the position the unit has at the time of the call; the avatar still holds
  its unit and a main pack, so the same is true of the next call.
\<close>

theorem update_synchronizes_pack_point:
  assumes "self ''_unit'' = Some (UnitRef unit_ref)"
    and "self ''_main_resource_pack'' = Some (PackV pack)"
  shows "SingleResourcePackAvatar_update world class_attributes self =
           Inr (self(''_main_resource_pack'' \<mapsto> PackV (pack\<lparr>point := position (world unit_ref)\<rparr>)))
         \<and> and_then (SingleResourcePackAvatar_update world class_attributes self)
             (render_resource_packs class_attributes) =
           Inr [pack\<lparr>point := position (world unit_ref)\<rparr>]
         \<and> (self(''_main_resource_pack'' \<mapsto> PackV (pack\<lparr>point := position (world unit_ref)\<rparr>)))
             ''_unit'' = Some (UnitRef unit_ref)"
  using assms
  by (simp add: SingleResourcePackAvatar_update_def unit_position_def get_unit_ref_def get_pack_def
      render_resource_packs_def getattr_def and_then_def)

theorem update_synchronizes_pack_point_witness:
  "and_then (PrimitiveAvatar_init (\<lambda>_. \<lparr>position = vec [3, 4]\<rparr>) 0 ''circle'')
     (\<lambda>avatar.
        and_then
          (SingleResourcePackAvatar_update (\<lambda>_. \<lparr>position = vec [5, 4]\<rparr>)
             ResourceAvatar_class_attributes avatar)
          (render_resource_packs ResourceAvatar_class_attributes)) =
   Inr [\<lparr>resource = ''circle'', point = vec [5, 4]\<rparr>]"
  using update_synchronizes_pack_point
    [where self = "Map.empty(''_unit'' \<mapsto> UnitRef 0,
                     ''_main_resource_pack'' \<mapsto> PackV \<lparr>resource = ''circle'', point = vec [3, 4]\<rparr>)"
       and unit_ref = 0
       and pack = "\<lparr>resource = ''circle'', point = vec [3, 4]\<rparr>"
       and world = "\<lambda>_. \<lparr>position = vec [5, 4]\<rparr>"
       and class_attributes = ResourceAvatar_class_attributes]
  by (simp add: PrimitiveAvatar_init_result render_resource_packs_def get_pack_def getattr_def
      and_then_def)

section \<open>The drawing routines of PygameSurfaceRender\<close>

text \<open>
  C9. The adapter registers its routines for exactly the host surface, Polygon, Line,
  Lines, Circle, Rectangle, Ellipse and Arc, one routine for each of them, and each of
  these types is dispatched to its routine; presenting a resource pack whose resource
  has none of these types fails with the NotFound error.
\<close>

theorem PygameSurfaceRender_handlers_complete:
  assumes "type_of (resource pack) \<notin> set (map fst PygameSurfaceRender_resource_handlers)"
  shows "map fst PygameSurfaceRender_resource_handlers =
           [Surface_type, Polygon_type, Line_type, Lines_type,
            Circle_type, Rectangle_type, Ellipse_type, Arc_type]
         \<and> map (\<lambda>t. length (filter (\<lambda>entry. fst entry = t) PygameSurfaceRender_resource_handlers))
             [Surface_type, Polygon_type, Line_type, Lines_type,
              Circle_type, Rectangle_type, Ellipse_type, Arc_type] =
           [1, 1, 1, 1, 1, 1, 1, 1]
         \<and> map (Render_find_handler PygameSurfaceRender_resource_handlers)
             [Surface_type, Polygon_type, Line_type, Lines_type,
              Circle_type, Rectangle_type, Ellipse_type, Arc_type] =
           [Inr ''_handle_pygame_surface'', Inr ''_handle_pygame_polygon'',
            Inr ''_handle_pygame_line'', Inr ''_handle_pygame_lines'',
            Inr ''_handle_pygame_circle'', Inr ''_handle_pygame_rect'',
            Inr ''_handle_pygame_ellipse'', Inr ''_handle_pygame_arc'']
         \<and> Render_draw_resource_pack PygameSurfaceRender_resource_handlers type_of pack =
           Inl NotFoundError"
proof -
  have "map_of PygameSurfaceRender_resource_handlers (type_of (resource pack)) = None"
    using assms by (simp add: map_of_eq_None_iff)
  then have "Render_draw_resource_pack PygameSurfaceRender_resource_handlers type_of pack =
      Inl NotFoundError"
    by (simp add: Render_draw_resource_pack_def Render_find_handler_def)
  then show ?thesis
    by (simp add: PygameSurfaceRender_resource_handlers_def Render_find_handler_def)
qed

theorem PygameSurfaceRender_handlers_complete_witness:
  "Other_type ''Sprite'' \<notin> set (map fst PygameSurfaceRender_resource_handlers)
   \<and> Render_draw_resource_pack PygameSurfaceRender_resource_handlers Other_type
       \<lparr>resource = ''Sprite'', point = vec [0, 0]\<rparr> = Inl NotFoundError"
proof -
  have unregistered:
    "Other_type (resource \<lparr>resource = ''Sprite'', point = vec [0, 0]\<rparr>)
       \<notin> set (map fst PygameSurfaceRender_resource_handlers)"
    by (simp add: PygameSurfaceRender_resource_handlers_def)
  show ?thesis
    using unregistered
      PygameSurfaceRender_handlers_complete
        [where type_of = Other_type and pack = "\<lparr>resource = ''Sprite'', point = vec [0, 0]\<rparr>"]
    by simp
qed

end
